theory Spec2Isabelle
  imports Main "HOL-Library.Word"
begin

section \<open>The C interface of the detector (core.h)\<close>

text \<open>
  The library is a C-callable shim around a Python engine that runs in an embedded
  interpreter. The engine is not part of these sources, so every function that calls into
  it takes the engine as a parameter: a record with one field per Python call made by
  core.cpp. A Python call either returns or raises; a raised Python exception reaches the
  C++ code as \<open>py::error_already_set\<close>, and \<open>Raise w\<close> carries its \<open>what()\<close> text.
  C++ exceptions of other kinds are modelled only where a handler catches them, in
  \<open>meshmind_create_detector\<close>.
\<close>

datatype 'a py_result = Raise string | Return 'a

text \<open>
  A \<open>double\<close> is its IEEE-754 bit pattern. The shim only copies doubles and zero-fills
  them (\<open>memset\<close>); the all-zero pattern is \<open>+0.0\<close>.
\<close>

type_synonym double = "64 word"

subsection \<open>Error codes\<close>

definition MESHMIND_SUCCESS :: int where "MESHMIND_SUCCESS = 0"
definition MESHMIND_ERROR_INIT :: int where "MESHMIND_ERROR_INIT = -1"
definition MESHMIND_ERROR_LOAD :: int where "MESHMIND_ERROR_LOAD = -2"
definition MESHMIND_ERROR_DETECT :: int where "MESHMIND_ERROR_DETECT = -3"
definition MESHMIND_ERROR_EXPORT :: int where "MESHMIND_ERROR_EXPORT = -4"
definition MESHMIND_ERROR_INVALID_PARAM :: int where "MESHMIND_ERROR_INVALID_PARAM = -5"

subsection \<open>Detection records\<close>

text \<open>
  \<open>MeshMindDetection\<close>: \<open>char feature_id[256]\<close>, \<open>double transform[16]\<close> (row-major),
  \<open>double confidence\<close>, \<open>double position[3]\<close>, \<open>double radius\<close>. The arrays are lists;
  \<open>zero_detection\<close> is the record after \<open>memset(&result, 0, sizeof(result))\<close>.
\<close>

record MeshMindDetection =
  feature_id :: "char list"
  transform :: "double list"
  confidence :: double
  position :: "double list"
  radius :: double

definition NUL :: char where "NUL = CHR 0x00"

definition zero_detection :: MeshMindDetection where
  "zero_detection =
     \<lparr>feature_id = replicate 256 NUL, transform = replicate 16 0, confidence = 0,
      position = replicate 3 0, radius = 0\<rparr>"

subsection \<open>The engine\<close>

text \<open>
  What the shim reads from one element of the engine's \<open>detections\<close> list. Each attribute
  read (with its conversion to the C++ type) may raise:
  \<^item> \<open>py_feature_id\<close>: \<open>py::str(det.attr("feature_id"))\<close> as a byte string;
  \<^item> \<open>py_transform\<close>: \<open>det.attr("transform")\<close> as a \<open>py::array_t<double>\<close>, read through
    its unchecked two-dimensional accessor (row, then column); the array is taken to be
    two-dimensional and at least \<open>4 \<times> 4\<close>;
  \<^item> \<open>py_confidence\<close>: \<open>py::float_(det.attr("confidence"))\<close>;
  \<^item> \<open>py_region_metadata\<close>: \<open>det.attr("region_metadata")\<close> as a \<open>py::dict\<close>; a value of
    the dictionary is the result of converting it with \<open>py::float_\<close>.
\<close>

record PyDetection =
  py_feature_id :: "string py_result"
  py_transform :: "(nat \<Rightarrow> nat \<Rightarrow> double) py_result"
  py_confidence :: "double py_result"
  py_region_metadata :: "(string \<rightharpoonup> double py_result) py_result"

datatype scoped_interpreter = Interpreter

text \<open>
  The Python calls of core.cpp. \<open>'o\<close> is the type of Python objects (\<open>py::object\<close>). A
  method of the mesher may change the mesher, so it returns the mesher after the call
  together with its result. Reading the \<open>detections\<close> attribute leaves the mesher as it is.
  \<^item> \<open>py_scoped_interpreter\<close>: \<open>new py::scoped_interpreter()\<close>; \<open>Inl w\<close> when the
    constructor throws a \<open>std::exception\<close> with text \<open>w\<close>;
  \<^item> \<open>py_AutoMesher\<close>: importing \<open>meshmind.sdk.mesher\<close> and calling \<open>AutoMesher()\<close>;
  \<^item> \<open>py_load_target m path\<close>: \<open>m.load_target(path)\<close>;
  \<^item> \<open>py_detections m\<close>: \<open>m.detections\<close> converted to a \<open>py::list\<close>;
  \<^item> \<open>py_generate_refinement m kw\<close>: \<open>m.generate_refinement()\<close> when \<open>kw = None\<close>,
    \<open>m.generate_refinement(enable_mrf=b)\<close> when \<open>kw = Some b\<close>;
  \<^item> \<open>py_export_snappy_dict m path mrf\<close>: \<open>m.export_snappy_dict(path)\<close> when
    \<open>mrf = None\<close>, \<open>m.export_snappy_dict(path, i)\<close> when \<open>mrf = Some i\<close>;
  \<^item> \<open>py_FTetWildGenerator\<close>: importing \<open>meshmind.plugins.mesh_generators.ftetwild\<close>
    and calling \<open>FTetWildGenerator()\<close>;
  \<^item> \<open>py_generate_refinement_config g dets params\<close> and \<open>py_export_config g config path\<close>:
    the two methods of the generator.
  Files written by the engine are outside the model.
\<close>

record 'o engine =
  py_scoped_interpreter :: "string + scoped_interpreter"
  py_AutoMesher :: "'o py_result"
  py_load_target :: "'o \<Rightarrow> string \<Rightarrow> 'o \<times> unit py_result"
  py_detections :: "'o \<Rightarrow> PyDetection list py_result"
  py_generate_refinement :: "'o \<Rightarrow> bool option \<Rightarrow> 'o \<times> unit py_result"
  py_export_snappy_dict :: "'o \<Rightarrow> string \<Rightarrow> int option \<Rightarrow> 'o \<times> unit py_result"
  py_FTetWildGenerator :: "'o py_result"
  py_generate_refinement_config ::
    "'o \<Rightarrow> PyDetection list \<Rightarrow> (string \<times> double) list \<Rightarrow> 'o py_result"
  py_export_config :: "'o \<Rightarrow> 'o \<Rightarrow> string \<Rightarrow> unit py_result"

subsection \<open>The detector\<close>

text \<open>
  \<open>struct MeshMindDetector_t\<close>. A handle (\<open>MeshMindDetector\<close>, a pointer to the struct) is
  modelled by the struct it points to: \<open>None\<close> is the null pointer and \<open>Some d\<close> a pointer
  to the live detector \<open>d\<close>. A function that writes through the handle returns the
  detector after the call. A \<open>const char*\<close> argument is a \<open>string option\<close> in the same way.
\<close>

record 'o MeshMindDetector_t =
  guard :: scoped_interpreter
  mesher :: 'o
  last_error :: string
  cached_detections :: "MeshMindDetection list"

type_synonym 'o MeshMindDetector = "'o MeshMindDetector_t option"

definition MESHMIND_VERSION_STRING :: string where
  "MESHMIND_VERSION_STRING = ''1.0.0''"

text \<open>
  \<open>meshmind_create_detector\<close>: both handlers of the try block return the null pointer.
  The vector \<open>cached_detections\<close> of the new struct is empty.
\<close>

definition meshmind_create_detector :: "'o engine \<Rightarrow> 'o MeshMindDetector" where
  "meshmind_create_detector E =
     (case py_scoped_interpreter E of
        Inl w \<Rightarrow> None
      | Inr g \<Rightarrow>
          (case py_AutoMesher E of
             Raise w \<Rightarrow> None
           | Return m \<Rightarrow>
               Some \<lparr>guard = g, mesher = m, last_error = '''', cached_detections = []\<rparr>))"

text \<open>
  \<open>meshmind_destroy_detector\<close> returns nothing; its effect is the list of objects it
  deletes, in order.
\<close>

datatype deleted = Deleted_guard scoped_interpreter | Deleted_detector

definition meshmind_destroy_detector :: "'o MeshMindDetector \<Rightarrow> deleted list" where
  "meshmind_destroy_detector detector =
     (case detector of
        Some d \<Rightarrow> [Deleted_guard (guard d), Deleted_detector]
      | None \<Rightarrow> [])"

text \<open>
  Each of the functions below that calls Python does so in a try block whose handler
  catches \<open>py::error_already_set\<close>. The try block of \<open>f\<close> is \<open>f_try\<close>: it returns the
  detector as the block leaves it, with \<open>Return v\<close> when the block ends in \<open>return v\<close> and
  \<open>Raise w\<close> when an exception with text \<open>w\<close> leaves the block.
\<close>

definition load_target_try ::
  "'o engine \<Rightarrow> 'o MeshMindDetector_t \<Rightarrow> string \<Rightarrow> 'o MeshMindDetector_t \<times> int py_result" where
  "load_target_try E d path =
     (case py_load_target E (mesher d) path of
        (m, Raise w) \<Rightarrow> (d\<lparr>mesher := m\<rparr>, Raise w)
      | (m, Return u) \<Rightarrow> (d\<lparr>mesher := m\<rparr>, Return MESHMIND_SUCCESS))"

definition meshmind_load_target ::
  "'o engine \<Rightarrow> 'o MeshMindDetector \<Rightarrow> string option \<Rightarrow> int \<times> 'o MeshMindDetector" where
  "meshmind_load_target E detector stl_path =
     (case (detector, stl_path) of
        (Some d, Some path) \<Rightarrow>
          (case load_target_try E d path of
             (d', Return v) \<Rightarrow> (v, Some d')
           | (d', Raise w) \<Rightarrow> (MESHMIND_ERROR_LOAD, Some (d'\<lparr>last_error := w\<rparr>)))
      | _ \<Rightarrow> (MESHMIND_ERROR_INVALID_PARAM, detector))"

text \<open>\<open>meshmind_add_template\<close> makes no Python call, so it does not take the engine.\<close>

definition meshmind_add_template ::
  "'o MeshMindDetector \<Rightarrow> string option \<Rightarrow> string option \<Rightarrow> int \<times> 'o MeshMindDetector" where
  "meshmind_add_template detector template_path feature_ident =
     (case (detector, template_path) of
        (Some d, Some path) \<Rightarrow> (MESHMIND_SUCCESS, detector)
      | _ \<Rightarrow> (MESHMIND_ERROR_INVALID_PARAM, detector))"

subsection \<open>Detection\<close>

text \<open>
  \<open>strncpy dest src n\<close> for \<open>n \<le> length dest\<close>: the source is read up to its first NUL
  (\<open>src\<close> is the content of the \<open>std::string\<close>, whose \<open>c_str()\<close> ends at the first NUL
  byte), at most \<open>n\<close> bytes are copied and the rest of the first \<open>n\<close> bytes of \<open>dest\<close> is
  filled with NUL; bytes of \<open>dest\<close> from \<open>n\<close> on are not written.
\<close>

definition strncpy :: "char list \<Rightarrow> char list \<Rightarrow> nat \<Rightarrow> char list" where
  "strncpy dest src n =
     (let s = take n (takeWhile (\<lambda>c. c \<noteq> NUL) src)
      in s @ replicate (n - length s) NUL @ drop n dest)"

text \<open>The nested \<open>for\<close> statements that copy the \<open>4 \<times> 4\<close> array into \<open>result.transform\<close>.\<close>

definition copy_transform :: "(nat \<Rightarrow> nat \<Rightarrow> double) \<Rightarrow> double list \<Rightarrow> double list" where
  "copy_transform transform_buf t =
     fold (\<lambda>r t. fold (\<lambda>c t. t[r * 4 + c := transform_buf r c]) [0..<4] t) [0..<4] t"

text \<open>
  The inner try block of the loop body: any exception while reading the metadata or the
  radius is caught by \<open>catch (...)\<close>, which sets the radius to \<open>0.0\<close>.
\<close>

definition extract_radius :: "PyDetection \<Rightarrow> MeshMindDetection \<Rightarrow> MeshMindDetection" where
  "extract_radius det result =
     (case py_region_metadata det of
        Raise w \<Rightarrow> result\<lparr>radius := 0\<rparr>
      | Return metadata \<Rightarrow>
          (case metadata ''radius'' of
             None \<Rightarrow> result
           | Some (Raise w) \<Rightarrow> result\<lparr>radius := 0\<rparr>
           | Some (Return r) \<Rightarrow> result\<lparr>radius := r\<rparr>))"

text \<open>
  The body of the loop up to \<open>results[i] = result\<close>: the record built from one element of
  the engine's list, or the exception that leaves the loop.
\<close>

definition convert_detection :: "PyDetection \<Rightarrow> MeshMindDetection py_result" where
  "convert_detection det =
     (let result = zero_detection
      in case py_feature_id det of
           Raise w \<Rightarrow> Raise w
         | Return fid \<Rightarrow>
             (let result = result\<lparr>feature_id := strncpy (feature_id result) fid (256 - 1)\<rparr>
              in case py_transform det of
                   Raise w \<Rightarrow> Raise w
                 | Return transform_buf \<Rightarrow>
                     (let result = result\<lparr>transform := copy_transform transform_buf (transform result)\<rparr>;
                          result = result\<lparr>position := (position result)[0 := transform result ! 3]\<rparr>;
                          result = result\<lparr>position := (position result)[1 := transform result ! 7]\<rparr>;
                          result = result\<lparr>position := (position result)[2 := transform result ! 11]\<rparr>
                      in case py_confidence det of
                           Raise w \<Rightarrow> Raise w
                         | Return c \<Rightarrow>
                             Return (extract_radius det (result\<lparr>confidence := c\<rparr>)))))"

text \<open>
  The caller's buffer is the memory behind the pointer \<open>results\<close>, indexed by element:
  the shim writes \<open>results[i]\<close> without knowing how much storage there is.

  \<open>detect_loop detections count i results cached\<close> runs the loop from index \<open>i\<close> on. It
  returns the buffer and the cache when the loop ends, with the \<open>what()\<close> text of the
  exception if one left the loop. Reading \<open>detections[i]\<close> past the end of the list raises
  Python's IndexError.
\<close>

function detect_loop ::
  "PyDetection list \<Rightarrow> int \<Rightarrow> nat \<Rightarrow> (nat \<Rightarrow> MeshMindDetection) \<Rightarrow> MeshMindDetection list
   \<Rightarrow> (nat \<Rightarrow> MeshMindDetection) \<times> MeshMindDetection list \<times> string option" where
  "detect_loop detections count i results cached =
     (if int i < count then
        (if i < length detections then
           (case convert_detection (detections ! i) of
              Raise w \<Rightarrow> (results, cached, Some w)
            | Return result \<Rightarrow>
                detect_loop detections count (Suc i) (results(i := result)) (cached @ [result]))
         else (results, cached, Some ''IndexError: list index out of range''))
      else (results, cached, None))"
  by pat_completeness auto
termination
  by (relation "measure (\<lambda>(detections, count, i, results, cached). nat (count - int i))") auto

declare detect_loop.simps [simp del]

text \<open>
  The try block of \<open>meshmind_detect\<close>. \<open>max_results\<close> is a C \<open>int\<close>;
  \<open>(int)py::len(detections)\<close> keeps the low 32 bits of the length, read as a signed
  number. The cache is cleared once the list has been read.
\<close>

definition detect_try ::
  "'o engine \<Rightarrow> 'o MeshMindDetector_t \<Rightarrow> (nat \<Rightarrow> MeshMindDetection) \<Rightarrow> int
   \<Rightarrow> ('o MeshMindDetector_t \<times> (nat \<Rightarrow> MeshMindDetection)) \<times> int py_result" where
  "detect_try E d results max_results =
     (case py_detections E (mesher d) of
        Raise w \<Rightarrow> ((d, results), Raise w)
      | Return detections \<Rightarrow>
          (let count = min (sint (word_of_nat (length detections) :: 32 word)) max_results
           in case detect_loop detections count 0 results [] of
                (results', cached, Some w) \<Rightarrow>
                  ((d\<lparr>cached_detections := cached\<rparr>, results'), Raise w)
              | (results', cached, None) \<Rightarrow>
                  ((d\<lparr>cached_detections := cached\<rparr>, results'), Return count)))"

text \<open>\<open>meshmind_detect\<close> returns the status, the detector and the buffer after the call.\<close>

definition meshmind_detect ::
  "'o engine \<Rightarrow> 'o MeshMindDetector \<Rightarrow> (nat \<Rightarrow> MeshMindDetection) option \<Rightarrow> int
   \<Rightarrow> int \<times> 'o MeshMindDetector \<times> (nat \<Rightarrow> MeshMindDetection) option" where
  "meshmind_detect E detector results max_results =
     (case (detector, results) of
        (Some d, Some buf) \<Rightarrow>
          (if max_results \<le> 0 then (MESHMIND_ERROR_INVALID_PARAM, detector, results)
           else
             (case detect_try E d buf max_results of
                ((d', buf'), Return v) \<Rightarrow> (v, Some d', Some buf')
              | ((d', buf'), Raise w) \<Rightarrow>
                  (MESHMIND_ERROR_DETECT, Some (d'\<lparr>last_error := w\<rparr>), Some buf')))
      | _ \<Rightarrow> (MESHMIND_ERROR_INVALID_PARAM, detector, results))"

subsection \<open>Exports\<close>

definition export_snappy_dict_try ::
  "'o engine \<Rightarrow> 'o MeshMindDetector_t \<Rightarrow> string \<Rightarrow> 'o MeshMindDetector_t \<times> int py_result" where
  "export_snappy_dict_try E d path =
     (case py_generate_refinement E (mesher d) None of
        (m, Raise w) \<Rightarrow> (d\<lparr>mesher := m\<rparr>, Raise w)
      | (m, Return u) \<Rightarrow>
          (case py_export_snappy_dict E m path None of
             (m', Raise w) \<Rightarrow> (d\<lparr>mesher := m'\<rparr>, Raise w)
           | (m', Return u) \<Rightarrow> (d\<lparr>mesher := m'\<rparr>, Return MESHMIND_SUCCESS)))"

definition meshmind_export_snappy_dict ::
  "'o engine \<Rightarrow> 'o MeshMindDetector \<Rightarrow> string option \<Rightarrow> int \<times> 'o MeshMindDetector" where
  "meshmind_export_snappy_dict E detector output_path =
     (case (detector, output_path) of
        (Some d, Some path) \<Rightarrow>
          (case export_snappy_dict_try E d path of
             (d', Return v) \<Rightarrow> (v, Some d')
           | (d', Raise w) \<Rightarrow> (MESHMIND_ERROR_EXPORT, Some (d'\<lparr>last_error := w\<rparr>)))
      | _ \<Rightarrow> (MESHMIND_ERROR_INVALID_PARAM, detector))"

text \<open>
  \<open>enable_mrf\<close> is a C \<open>int\<close>: the keyword argument gets \<open>(bool)enable_mrf\<close>, the second
  positional argument of \<open>export_snappy_dict\<close> gets the \<open>int\<close> itself.
\<close>

definition export_openfoam_case_try ::
  "'o engine \<Rightarrow> 'o MeshMindDetector_t \<Rightarrow> string \<Rightarrow> int
   \<Rightarrow> 'o MeshMindDetector_t \<times> int py_result" where
  "export_openfoam_case_try E d dir enable_mrf =
     (case py_generate_refinement E (mesher d) (Some (enable_mrf \<noteq> 0)) of
        (m, Raise w) \<Rightarrow> (d\<lparr>mesher := m\<rparr>, Raise w)
      | (m, Return u) \<Rightarrow>
          (case py_export_snappy_dict E m dir (Some enable_mrf) of
             (m', Raise w) \<Rightarrow> (d\<lparr>mesher := m'\<rparr>, Raise w)
           | (m', Return u) \<Rightarrow> (d\<lparr>mesher := m'\<rparr>, Return MESHMIND_SUCCESS)))"

definition meshmind_export_openfoam_case ::
  "'o engine \<Rightarrow> 'o MeshMindDetector \<Rightarrow> string option \<Rightarrow> int \<Rightarrow> int \<times> 'o MeshMindDetector" where
  "meshmind_export_openfoam_case E detector case_dir enable_mrf =
     (case (detector, case_dir) of
        (Some d, Some dir) \<Rightarrow>
          (case export_openfoam_case_try E d dir enable_mrf of
             (d', Return v) \<Rightarrow> (v, Some d')
           | (d', Raise w) \<Rightarrow> (MESHMIND_ERROR_EXPORT, Some (d'\<lparr>last_error := w\<rparr>)))
      | _ \<Rightarrow> (MESHMIND_ERROR_INVALID_PARAM, detector))"

text \<open>
  The two tunables of the sizing export, \<open>0.1\<close> and \<open>0.2\<close>, as the bit patterns of the
  nearest doubles.
\<close>

definition ftetwild_params :: "(string \<times> double) list" where
  "ftetwild_params =
     [(''base_size'', 0x3FB999999999999A), (''refinement_factor'', 0x3FC999999999999A)]"

definition export_ftetwild_sizing_try ::
  "'o engine \<Rightarrow> 'o MeshMindDetector_t \<Rightarrow> string \<Rightarrow> 'o MeshMindDetector_t \<times> int py_result" where
  "export_ftetwild_sizing_try E d path =
     (case py_FTetWildGenerator E of
        Raise w \<Rightarrow> (d, Raise w)
      | Return ftetwild_gen \<Rightarrow>
          (case py_detections E (mesher d) of
             Raise w \<Rightarrow> (d, Raise w)
           | Return detections \<Rightarrow>
               (case py_generate_refinement_config E ftetwild_gen detections ftetwild_params of
                  Raise w \<Rightarrow> (d, Raise w)
                | Return config \<Rightarrow>
                    (case py_export_config E ftetwild_gen config path of
                       Raise w \<Rightarrow> (d, Raise w)
                     | Return u \<Rightarrow> (d, Return MESHMIND_SUCCESS)))))"

definition meshmind_export_ftetwild_sizing ::
  "'o engine \<Rightarrow> 'o MeshMindDetector \<Rightarrow> string option \<Rightarrow> int \<times> 'o MeshMindDetector" where
  "meshmind_export_ftetwild_sizing E detector output_path =
     (case (detector, output_path) of
        (Some d, Some path) \<Rightarrow>
          (case export_ftetwild_sizing_try E d path of
             (d', Return v) \<Rightarrow> (v, Some d')
           | (d', Raise w) \<Rightarrow> (MESHMIND_ERROR_EXPORT, Some (d'\<lparr>last_error := w\<rparr>)))
      | _ \<Rightarrow> (MESHMIND_ERROR_INVALID_PARAM, detector))"

subsection \<open>Utility functions\<close>

definition meshmind_version :: string where
  "meshmind_version = MESHMIND_VERSION_STRING"

definition meshmind_get_error :: "'o MeshMindDetector \<Rightarrow> string" where
  "meshmind_get_error detector =
     (case detector of
        None \<Rightarrow> ''Invalid detector handle''
      | Some d \<Rightarrow> last_error d)"

subsection \<open>Sequences of calls on one handle\<close>

text \<open>
  The status-returning calls a caller can make on a handle, with their other arguments.
  \<open>api_call\<close> makes one call and returns the status and the detector after it (the buffer
  of a detection is dropped); \<open>api_calls\<close> makes the calls of a list in order and returns
  the statuses and the detector after the last call.
\<close>

datatype api_call =
    Load_target "string option"
  | Add_template "string option" "string option"
  | Detect "(nat \<Rightarrow> MeshMindDetection) option" int
  | Export_snappy_dict "string option"
  | Export_openfoam_case "string option" int
  | Export_ftetwild_sizing "string option"

definition api_call ::
  "'o engine \<Rightarrow> 'o MeshMindDetector \<Rightarrow> api_call \<Rightarrow> int \<times> 'o MeshMindDetector" where
  "api_call E detector c =
     (case c of
        Load_target stl_path \<Rightarrow> meshmind_load_target E detector stl_path
      | Add_template template_path feature_ident \<Rightarrow>
          meshmind_add_template detector template_path feature_ident
      | Detect results max_results \<Rightarrow>
          (case meshmind_detect E detector results max_results of
             (status, detector', results') \<Rightarrow> (status, detector'))
      | Export_snappy_dict output_path \<Rightarrow> meshmind_export_snappy_dict E detector output_path
      | Export_openfoam_case case_dir enable_mrf \<Rightarrow>
          meshmind_export_openfoam_case E detector case_dir enable_mrf
      | Export_ftetwild_sizing output_path \<Rightarrow>
          meshmind_export_ftetwild_sizing E detector output_path)"

fun api_calls ::
  "'o engine \<Rightarrow> 'o MeshMindDetector \<Rightarrow> api_call list \<Rightarrow> int list \<times> 'o MeshMindDetector" where
  "api_calls E detector [] = ([], detector)"
| "api_calls E detector (c # cs) =
     (case api_call E detector c of
        (status, detector') \<Rightarrow>
          (case api_calls E detector' cs of
             (statuses, detector'') \<Rightarrow> (status # statuses, detector'')))"

text \<open>
  \<open>caught E d c\<close> is the text of the exception that the handler of the call \<open>c\<close> catches
  when the call is made on the live detector \<open>d\<close>: the exception leaving the try block,
  if the call passes its parameter check and the block raises. \<open>handler_code c\<close> is the
  status that this handler returns.
\<close>

definition raised :: "'s \<times> int py_result \<Rightarrow> string option" where
  "raised r = (case r of (s, Raise w) \<Rightarrow> Some w | (s, Return v) \<Rightarrow> None)"

definition caught :: "'o engine \<Rightarrow> 'o MeshMindDetector_t \<Rightarrow> api_call \<Rightarrow> string option" where
  "caught E d c =
     (case c of
        Load_target (Some path) \<Rightarrow> raised (load_target_try E d path)
      | Detect (Some buf) max_results \<Rightarrow>
          (if max_results \<le> 0 then None else raised (detect_try E d buf max_results))
      | Export_snappy_dict (Some path) \<Rightarrow> raised (export_snappy_dict_try E d path)
      | Export_openfoam_case (Some dir) enable_mrf \<Rightarrow>
          raised (export_openfoam_case_try E d dir enable_mrf)
      | Export_ftetwild_sizing (Some path) \<Rightarrow> raised (export_ftetwild_sizing_try E d path)
      | _ \<Rightarrow> None)"

definition handler_code :: "api_call \<Rightarrow> int option" where
  "handler_code c =
     (case c of
        Load_target stl_path \<Rightarrow> Some MESHMIND_ERROR_LOAD
      | Add_template template_path feature_ident \<Rightarrow> None
      | Detect results max_results \<Rightarrow> Some MESHMIND_ERROR_DETECT
      | Export_snappy_dict output_path \<Rightarrow> Some MESHMIND_ERROR_EXPORT
      | Export_openfoam_case case_dir enable_mrf \<Rightarrow> Some MESHMIND_ERROR_EXPORT
      | Export_ftetwild_sizing output_path \<Rightarrow> Some MESHMIND_ERROR_EXPORT)"

subsection \<open>Test inputs\<close>

text \<open>
  A small engine for concrete runs, in the manner of examples/basic_usage.cpp. Its Python
  objects are strings; the mesher is the path of the target it has loaded. It loads
  \<open>model.stl\<close> (three detections) and \<open>broken.stl\<close> (the second detection has no readable
  confidence) and raises for any other path. \<open>demo_pose\<close> is the identity rotation with
  translation \<open>(1.0, 2.0, 0.5)\<close>; \<open>demo_mirror\<close> has no \<open>region_metadata\<close> attribute.
\<close>

definition demo_pose :: "nat \<Rightarrow> nat \<Rightarrow> double" where
  "demo_pose r c =
     (if r = c then 0x3FF0000000000000
      else if c = 3 then
        (if r = 0 then 0x3FF0000000000000
         else if r = 1 then 0x4000000000000000 else 0x3FE0000000000000)
      else 0)"

definition demo_wheel :: PyDetection where
  "demo_wheel =
     \<lparr>py_feature_id = Return ''wheel'', py_transform = Return demo_pose,
      py_confidence = Return 0x3FEC000000000000,
      py_region_metadata = Return [''radius'' \<mapsto> Return 0x3FD0000000000000]\<rparr>"

definition demo_mirror :: PyDetection where
  "demo_mirror =
     \<lparr>py_feature_id = Return ''mirror'', py_transform = Return demo_pose,
      py_confidence = Return 0x3FE0000000000000,
      py_region_metadata = Raise ''AttributeError: region_metadata''\<rparr>"

definition demo_broken :: PyDetection where
  "demo_broken =
     \<lparr>py_feature_id = Return ''wheel'', py_transform = Return demo_pose,
      py_confidence = Raise ''TypeError: confidence'',
      py_region_metadata = Return Map.empty\<rparr>"

definition demo_engine :: "string engine" where
  "demo_engine =
     \<lparr>py_scoped_interpreter = Inr Interpreter,
      py_AutoMesher = Return [],
      py_load_target = (\<lambda>m path.
         if path = ''model.stl'' \<or> path = ''broken.stl'' then (path, Return ())
         else (m, Raise (''FileNotFoundError: '' @ path))),
      py_detections = (\<lambda>m.
         if m = ''model.stl'' then Return [demo_wheel, demo_mirror, demo_wheel]
         else if m = ''broken.stl'' then Return [demo_wheel, demo_broken]
         else Return []),
      py_generate_refinement = (\<lambda>m kw.
         if m = [] then (m, Raise ''RuntimeError: no target loaded'') else (m, Return ())),
      py_export_snappy_dict = (\<lambda>m path mrf.
         if path = [] then (m, Raise ''FileNotFoundError'') else (m, Return ())),
      py_FTetWildGenerator = Return ''FTetWildGenerator'',
      py_generate_refinement_config = (\<lambda>g dets params.
         if dets = [] then Raise ''ValueError: no detections'' else Return ''config''),
      py_export_config = (\<lambda>g config path.
         if path = [] then Raise ''FileNotFoundError'' else Return ())\<rparr>"

text \<open>A detector of this engine with the given target loaded, and a caller's buffer.\<close>

definition demo_detector :: "string \<Rightarrow> string MeshMindDetector_t" where
  "demo_detector target =
     \<lparr>guard = Interpreter, mesher = target, last_error = [], cached_detections = []\<rparr>"

definition demo_buffer :: "nat \<Rightarrow> MeshMindDetection" where
  "demo_buffer i = zero_detection"

section \<open>Basic facts\<close>

lemmas error_codes = MESHMIND_SUCCESS_def MESHMIND_ERROR_INIT_def MESHMIND_ERROR_LOAD_def
  MESHMIND_ERROR_DETECT_def MESHMIND_ERROR_EXPORT_def MESHMIND_ERROR_INVALID_PARAM_def

subsection \<open>Building one record\<close>

lemma sint_length_32:
  "n < 2 ^ 31 \<Longrightarrow> sint (word_of_nat n :: 32 word) = int n"
  by (simp add: signed_of_nat signed_take_bit_int_eq_self)

lemma length_takeWhile_le_nth:
  assumes "k < length xs" and "\<not> P (xs ! k)"
  shows "length (takeWhile P xs) \<le> k"
proof (rule ccontr)
  assume "\<not> length (takeWhile P xs) \<le> k"
  then have k: "k < length (takeWhile P xs)" by simp
  then have "takeWhile P xs ! k \<in> set (takeWhile P xs)" by simp
  then have "P (takeWhile P xs ! k)" by (rule set_takeWhileD [THEN conjunct2])
  with k assms show False by (simp add: takeWhile_nth)
qed

lemma strncpy_length: "n \<le> length dest \<Longrightarrow> length (strncpy dest src n) = length dest"
  by (simp add: strncpy_def Let_def)

lemma strncpy_nth_rest:
  "n \<le> k \<Longrightarrow> k < length dest \<Longrightarrow> strncpy dest src n ! k = dest ! k"
  by (auto simp add: strncpy_def Let_def nth_append)

lemma copy_transform_zero:
  "copy_transform f (replicate 16 0) =
     [f 0 0, f 0 1, f 0 2, f 0 3, f 1 0, f 1 1, f 1 2, f 1 3,
      f 2 0, f 2 1, f 2 2, f 2 3, f 3 0, f 3 1, f 3 2, f 3 3]"
  by (simp add: copy_transform_def eval_nat_numeral)

lemma extract_radius_fields:
  "feature_id (extract_radius det r) = feature_id r"
  "transform (extract_radius det r) = transform r"
  "position (extract_radius det r) = position r"
  "confidence (extract_radius det r) = confidence r"
  by (simp_all add: extract_radius_def split: py_result.splits option.splits)

lemma extract_radius_no_metadata:
  "(case py_region_metadata det of Raise w \<Rightarrow> True | Return metadata \<Rightarrow> metadata ''radius'' = None)
   \<Longrightarrow> radius r = 0 \<Longrightarrow> radius (extract_radius det r) = 0"
  by (simp add: extract_radius_def split: py_result.splits option.splits)

lemma convert_detection_Return:
  assumes "convert_detection det = Return r"
  shows "length (feature_id r) = 256" and "feature_id r ! 255 = NUL"
    and "length (transform r) = 16" and "length (position r) = 3"
    and "position r = [transform r ! 3, transform r ! 7, transform r ! 11]"
    and "(case py_region_metadata det of Raise w \<Rightarrow> True
          | Return metadata \<Rightarrow> metadata ''radius'' = None) \<Longrightarrow> radius r = 0"
proof -
  from assms obtain fid f c where
    r: "r = extract_radius det
          (zero_detection\<lparr>feature_id := strncpy (replicate 256 NUL) fid 255,
             transform := copy_transform f (replicate 16 0),
             position := [copy_transform f (replicate 16 0) ! 3,
                          copy_transform f (replicate 16 0) ! 7,
                          copy_transform f (replicate 16 0) ! 11],
             confidence := c\<rparr>)"
    by (auto simp: convert_detection_def zero_detection_def Let_def eval_nat_numeral(1) numeral_3_eq_3
        split: py_result.splits)
  show "length (feature_id r) = 256"
    by (simp add: r extract_radius_fields strncpy_length)
  show "feature_id r ! 255 = NUL"
    by (simp add: r extract_radius_fields strncpy_nth_rest)
  show "length (transform r) = 16"
    by (simp add: r extract_radius_fields copy_transform_zero)
  show "length (position r) = 3"
    by (simp add: r extract_radius_fields)
  show "position r = [transform r ! 3, transform r ! 7, transform r ! 11]"
    by (simp add: r extract_radius_fields)
  show "radius r = 0" if "(case py_region_metadata det of Raise w \<Rightarrow> True
          | Return metadata \<Rightarrow> metadata ''radius'' = None)"
    using that by (simp add: r extract_radius_no_metadata zero_detection_def)
qed

subsection \<open>The detection loop\<close>

text \<open>
  What the loop has done when it stops: the records it pushed onto the cache are the
  conversions of the list elements from \<open>i\<close> on, each also written to the buffer at its
  index; the rest of the buffer is untouched; and the loop stopped either at the count or
  at the first element whose conversion raised.
\<close>

lemma detect_loop_spec:
  "detect_loop dets count i buf cached = (buf', cached', exc) \<Longrightarrow>
   \<exists>new. cached' = cached @ new
     \<and> (\<forall>j<length new. i + j < length dets \<and> int (i + j) < count
            \<and> convert_detection (dets ! (i + j)) = Return (new ! j) \<and> buf' (i + j) = new ! j)
     \<and> (\<forall>k. k < i \<or> i + length new \<le> k \<longrightarrow> buf' k = buf k)
     \<and> (case exc of
          None \<Rightarrow> \<not> int (i + length new) < count
        | Some w \<Rightarrow> int (i + length new) < count
            \<and> (if i + length new < length dets
                then convert_detection (dets ! (i + length new)) = Raise w
                else w = ''IndexError: list index out of range''))"
proof (induction dets count i buf cached arbitrary: buf' cached' exc rule: detect_loop.induct)
  case (1 detections count i results cached)
  show ?case
  proof (cases "int i < count \<and> i < length detections")
    case False
    with "1.prems" have "cached' = cached @ []" "buf' = results"
      "exc = (if int i < count then Some ''IndexError: list index out of range'' else None)"
      by (auto simp: detect_loop.simps [of detections count i] split: if_splits)
    with False show ?thesis
      by (intro exI [of _ "[]"]) auto
  next
    case True
    show ?thesis
    proof (cases "convert_detection (detections ! i)")
      case (Raise w)
      with True "1.prems" have "cached' = cached @ []" "buf' = results" "exc = Some w"
        by (auto simp: detect_loop.simps [of detections count i])
      with True Raise show ?thesis
        by (intro exI [of _ "[]"]) auto
    next
      case (Return r)
      with True "1.prems" have rec:
        "detect_loop detections count (Suc i) (results(i := r)) (cached @ [r]) = (buf', cached', exc)"
        by (simp add: detect_loop.simps [of detections count i])
      from "1.IH" [OF _ _ Return rec] True obtain new where
        c: "cached' = (cached @ [r]) @ new" and
        w: "\<forall>j<length new. Suc i + j < length detections \<and> int (Suc i + j) < count
            \<and> convert_detection (detections ! (Suc i + j)) = Return (new ! j)
            \<and> buf' (Suc i + j) = new ! j" and
        u: "\<forall>k. k < Suc i \<or> Suc i + length new \<le> k \<longrightarrow> buf' k = (results(i := r)) k" and
        e: "(case exc of
          None \<Rightarrow> \<not> int (Suc i + length new) < count
        | Some w \<Rightarrow> int (Suc i + length new) < count
            \<and> (if Suc i + length new < length detections
                then convert_detection (detections ! (Suc i + length new)) = Raise w
                else w = ''IndexError: list index out of range''))"
        by blast
      have "\<forall>j<length (r # new). i + j < length detections \<and> int (i + j) < count
            \<and> convert_detection (detections ! (i + j)) = Return ((r # new) ! j)
            \<and> buf' (i + j) = (r # new) ! j"
      proof (intro allI impI)
        fix j assume j: "j < length (r # new)"
        show "i + j < length detections \<and> int (i + j) < count
            \<and> convert_detection (detections ! (i + j)) = Return ((r # new) ! j)
            \<and> buf' (i + j) = (r # new) ! j"
        proof (cases j)
          case 0
          with True Return u show ?thesis by simp
        next
          case (Suc j')
          with j w show ?thesis by simp
        qed
      qed
      moreover have "\<forall>k. k < i \<or> i + length (r # new) \<le> k \<longrightarrow> buf' k = results k"
        using u by auto
      moreover have "cached' = cached @ (r # new)" using c by simp
      moreover have "(case exc of
          None \<Rightarrow> \<not> int (i + length (r # new)) < count
        | Some w \<Rightarrow> int (i + length (r # new)) < count
            \<and> (if i + length (r # new) < length detections
                then convert_detection (detections ! (i + length (r # new))) = Raise w
                else w = ''IndexError: list index out of range''))"
        using e by (cases exc) (auto split: if_splits)
      ultimately show ?thesis by blast
    qed
  qed
qed

lemma detect_loop_from_start:
  assumes "detect_loop dets count 0 buf [] = (buf', cached', exc)"
  shows "\<forall>j<length cached'. j < length dets \<and> int j < count
            \<and> convert_detection (dets ! j) = Return (cached' ! j) \<and> buf' j = cached' ! j"
    and "\<forall>k\<ge>length cached'. buf' k = buf k"
    and "exc = None \<Longrightarrow> int (length cached') = max 0 count"
    and "exc = Some w \<Longrightarrow> int (length cached') < count
           \<and> (if length cached' < length dets
               then convert_detection (dets ! length cached') = Raise w
               else w = ''IndexError: list index out of range'')"
proof -
  from detect_loop_spec [OF assms] obtain new where
    c: "cached' = new" and
    w: "\<forall>j<length new. j < length dets \<and> int j < count
            \<and> convert_detection (dets ! j) = Return (new ! j) \<and> buf' j = new ! j" and
    u: "\<forall>k. length new \<le> k \<longrightarrow> buf' k = buf k" and
    e: "(case exc of
          None \<Rightarrow> \<not> int (length new) < count
        | Some w \<Rightarrow> int (length new) < count
            \<and> (if length new < length dets
                then convert_detection (dets ! length new) = Raise w
                else w = ''IndexError: list index out of range''))"
    by (auto cong: option.case_cong if_cong)
  show "\<forall>j<length cached'. j < length dets \<and> int j < count
            \<and> convert_detection (dets ! j) = Return (cached' ! j) \<and> buf' j = cached' ! j"
    using w c by simp
  show "\<forall>k\<ge>length cached'. buf' k = buf k"
    using u c by simp
  show "int (length cached') = max 0 count" if "exc = None"
  proof (cases "length new")
    case 0
    with e that c show ?thesis by simp
  next
    case (Suc n)
    with w have "int n < count" by simp
    with e that c Suc show ?thesis by simp
  qed
  show "int (length cached') < count
           \<and> (if length cached' < length dets
               then convert_detection (dets ! length cached') = Raise w
               else w = ''IndexError: list index out of range'')" if "exc = Some w"
    using e that c by simp
qed

text \<open>
  A detection on a live detector with a buffer, a positive capacity and a readable list:
  the call in terms of the loop.
\<close>

lemma meshmind_detect_loop:
  assumes "0 < c" and "py_detections E (mesher d) = Return dets"
    and "detect_loop dets (min (sint (word_of_nat (length dets) :: 32 word)) c) 0 buf []
           = (buf', cached', exc)"
  shows "meshmind_detect E (Some d) (Some buf) c =
     (case exc of
        None \<Rightarrow> (min (sint (word_of_nat (length dets) :: 32 word)) c,
                  Some (d\<lparr>cached_detections := cached'\<rparr>), Some buf')
      | Some w \<Rightarrow> (MESHMIND_ERROR_DETECT,
                   Some (d\<lparr>cached_detections := cached', last_error := w\<rparr>), Some buf'))"
  using assms by (simp add: meshmind_detect_def detect_try_def Let_def split: option.splits)

lemma meshmind_detect_nonneg:
  assumes "meshmind_detect E detector results c = (n, detector', results')" and "0 \<le> n"
  obtains d buf dets buf' cached' where
    "detector = Some d" "results = Some buf" "0 < c"
    "py_detections E (mesher d) = Return dets"
    "n = min (sint (word_of_nat (length dets) :: 32 word)) c"
    "detect_loop dets n 0 buf [] = (buf', cached', None)"
    "detector' = Some (d\<lparr>cached_detections := cached'\<rparr>)" "results' = Some buf'"
proof -
  from assms obtain d buf where v: "detector = Some d" "results = Some buf" "0 < c"
    by (cases detector; cases results; cases "0 < c")
      (auto simp: meshmind_detect_def error_codes)
  with assms obtain dets where dets: "py_detections E (mesher d) = Return dets"
    by (cases "py_detections E (mesher d)")
      (auto simp: meshmind_detect_def detect_try_def error_codes)
  obtain buf' cached' exc where
    l: "detect_loop dets (min (sint (word_of_nat (length dets) :: 32 word)) c) 0 buf []
           = (buf', cached', exc)"
    by (metis prod_cases3)
  from assms meshmind_detect_loop [OF v(3) dets l] v have "exc = None"
    by (cases exc) (auto simp: error_codes)
  with assms meshmind_detect_loop [OF v(3) dets l] v l dets that show thesis
    by auto
qed

lemma meshmind_detect_ignores_cache:
  assumes "0 < c" and "py_detections E (mesher d) = Return dets"
  shows "meshmind_detect E (Some (d\<lparr>cached_detections := old\<rparr>)) (Some buf) c
           = meshmind_detect E (Some d) (Some buf) c"
  using assms
  by (simp add: meshmind_detect_def detect_try_def Let_def split: prod.splits option.splits)

lemma meshmind_detect_all_converted:
  assumes dets: "py_detections E (mesher d) = Return dets"
    and len: "length dets < 2 ^ 31"
    and conv: "\<forall>i<min (nat c) (length dets). \<exists>r. convert_detection (dets ! i) = Return r"
    and c: "0 < c"
  shows "\<exists>buf'.
     meshmind_detect E (Some d) (Some buf) c =
       (int (min (nat c) (length dets)),
        Some (d\<lparr>cached_detections := map buf' [0..<min (nat c) (length dets)]\<rparr>), Some buf')
     \<and> (\<forall>i<min (nat c) (length dets). convert_detection (dets ! i) = Return (buf' i))
     \<and> (\<forall>i\<ge>min (nat c) (length dets). buf' i = buf i)"
proof -
  let ?m = "min (nat c) (length dets)"
  let ?count = "min (sint (word_of_nat (length dets) :: 32 word)) c"
  from len c have count: "?count = int ?m"
    by (auto simp: sint_length_32 min_def)
  obtain buf' cached' exc where
    l: "detect_loop dets ?count 0 buf [] = (buf', cached', exc)"
    by (metis prod_cases3)
  have none: "exc = None"
  proof (cases exc)
    case (Some w)
    from detect_loop_from_start(4) [OF l Some] count
    have k: "length cached' < ?m" and
      "if length cached' < length dets
       then convert_detection (dets ! length cached') = Raise w
       else w = ''IndexError: list index out of range''"
      by simp_all
    then have "convert_detection (dets ! length cached') = Raise w" by simp
    with conv k show ?thesis by auto
  qed simp
  from detect_loop_from_start(3) [OF l none] count have n: "length cached' = ?m"
    by simp
  from detect_loop_from_start(1) [OF l] n
  have w: "\<forall>i<?m. convert_detection (dets ! i) = Return (buf' i)" and
    "\<forall>j<length cached'. cached' ! j = buf' j"
    by simp_all
  with n have cached: "cached' = map buf' [0..<?m]"
    by (intro nth_equalityI) simp_all
  from detect_loop_from_start(2) [OF l] n have u: "\<forall>i\<ge>?m. buf' i = buf i"
    by simp
  from meshmind_detect_loop [OF c dets l] none count cached
  have "meshmind_detect E (Some d) (Some buf) c =
       (int ?m, Some (d\<lparr>cached_detections := map buf' [0..<?m]\<rparr>), Some buf')"
    by simp
  with w u show ?thesis by blast
qed

lemma meshmind_detect_nonpositive:
  "c \<le> 0 \<Longrightarrow>
   meshmind_detect E (Some d) (Some buf) c = (MESHMIND_ERROR_INVALID_PARAM, Some d, Some buf)"
  by (simp add: meshmind_detect_def)

lemma convert_demo:
  "\<exists>r. convert_detection demo_wheel = Return r"
  "\<exists>r. convert_detection demo_mirror = Return r"
  "convert_detection demo_broken = Raise ''TypeError: confidence''"
  by (simp_all add: convert_detection_def demo_wheel_def demo_mirror_def demo_broken_def Let_def)

lemma demo_detections:
  "py_detections demo_engine (mesher (demo_detector ''model.stl''))
     = Return [demo_wheel, demo_mirror, demo_wheel]"
  "py_detections demo_engine (mesher (demo_detector ''broken.stl''))
     = Return [demo_wheel, demo_broken]"
  by (simp_all add: demo_engine_def demo_detector_def)

subsection \<open>One call on a live detector\<close>

lemmas api_defs = api_call_def caught_def raised_def handler_code_def
  meshmind_load_target_def meshmind_add_template_def meshmind_detect_def
  meshmind_export_snappy_dict_def meshmind_export_openfoam_case_def
  meshmind_export_ftetwild_sizing_def

lemma api_call_caught_Some:
  assumes "caught E d c = Some w"
  shows "\<exists>code d'. handler_code c = Some code \<and> api_call E (Some d) c = (code, Some d')
           \<and> last_error d' = w"
proof (cases c)
  case (Load_target stl_path)
  with assms show ?thesis
    by (cases stl_path) (auto simp: api_defs split: prod.splits py_result.splits)
next
  case (Add_template template_path feature_ident)
  with assms show ?thesis by (simp add: caught_def)
next
  case (Detect results max_results)
  with assms show ?thesis
    by (cases results; cases "max_results \<le> 0")
      (auto simp: api_defs split: prod.splits py_result.splits)
next
  case (Export_snappy_dict output_path)
  with assms show ?thesis
    by (cases output_path) (auto simp: api_defs split: prod.splits py_result.splits)
next
  case (Export_openfoam_case case_dir enable_mrf)
  with assms show ?thesis
    by (cases case_dir) (auto simp: api_defs split: prod.splits py_result.splits)
next
  case (Export_ftetwild_sizing output_path)
  with assms show ?thesis
    by (cases output_path) (auto simp: api_defs split: prod.splits py_result.splits)
qed

lemma api_call_caught_None:
  assumes "caught E d c = None"
  shows "\<exists>status d'. api_call E (Some d) c = (status, Some d') \<and> last_error d' = last_error d"
proof (cases c)
  case (Load_target stl_path)
  with assms show ?thesis
    by (cases stl_path)
      (auto simp: api_defs load_target_try_def split: prod.splits py_result.splits)
next
  case (Add_template template_path feature_ident)
  then show ?thesis
    by (cases template_path) (auto simp: api_defs)
next
  case (Detect results max_results)
  with assms show ?thesis
    by (cases results; cases "max_results \<le> 0")
      (auto simp: api_defs detect_try_def Let_def
        split: prod.splits py_result.splits option.splits)
next
  case (Export_snappy_dict output_path)
  with assms show ?thesis
    by (cases output_path)
      (auto simp: api_defs export_snappy_dict_try_def split: prod.splits py_result.splits)
next
  case (Export_openfoam_case case_dir enable_mrf)
  with assms show ?thesis
    by (cases case_dir)
      (auto simp: api_defs export_openfoam_case_try_def split: prod.splits py_result.splits)
next
  case (Export_ftetwild_sizing output_path)
  with assms show ?thesis
    by (cases output_path)
      (auto simp: api_defs export_ftetwild_sizing_try_def split: prod.splits py_result.splits)
qed

lemma handler_code_values:
  "handler_code c = Some code \<Longrightarrow>
   code \<in> {MESHMIND_ERROR_LOAD, MESHMIND_ERROR_DETECT, MESHMIND_ERROR_EXPORT}"
  by (cases c) (auto simp: handler_code_def)

lemma api_call_last_error:
  "\<exists>status d'. api_call E (Some d) c = (status, Some d')
     \<and> last_error d' = (case caught E d c of Some w \<Rightarrow> w | None \<Rightarrow> last_error d)
     \<and> (caught E d c \<noteq> None \<longrightarrow> handler_code c = Some status)"
proof (cases "caught E d c")
  case None
  with api_call_caught_None [OF None] show ?thesis by auto
next
  case (Some w)
  with api_call_caught_Some [OF Some] show ?thesis by auto
qed

lemma api_calls_keep_last_error:
  assumes "api_calls E (Some d) cs = (statuses, detector')"
    and "\<forall>s\<in>set statuses.
           s \<notin> {MESHMIND_ERROR_LOAD, MESHMIND_ERROR_DETECT, MESHMIND_ERROR_EXPORT}"
  shows "\<exists>d'. detector' = Some d' \<and> last_error d' = last_error d"
  using assms
proof (induction cs arbitrary: d statuses)
  case Nil
  then show ?case by auto
next
  case (Cons c cs)
  from api_call_last_error [of E d c] obtain status d1 where
    c: "api_call E (Some d) c = (status, Some d1)" and
    e: "last_error d1 = (case caught E d c of Some w \<Rightarrow> w | None \<Rightarrow> last_error d)" and
    h: "caught E d c \<noteq> None \<longrightarrow> handler_code c = Some status"
    by blast
  obtain rest where r: "api_calls E (Some d1) cs = (rest, detector')" and
    s: "statuses = status # rest"
    using Cons.prems(1) c by (auto split: prod.splits)
  from Cons.prems(2) s have
    "status \<notin> {MESHMIND_ERROR_LOAD, MESHMIND_ERROR_DETECT, MESHMIND_ERROR_EXPORT}"
    by simp
  with h handler_code_values [of c status] have "caught E d c = None" by blast
  with e have "last_error d1 = last_error d" by simp
  moreover from Cons.IH [OF r] Cons.prems(2) s
  have "\<exists>d'. detector' = Some d' \<and> last_error d' = last_error d1" by simp
  ultimately show ?case by simp
qed


lemma create_detector_Some:
  "meshmind_create_detector E = Some d \<Longrightarrow> last_error d = [] \<and> cached_detections d = []"
  by (auto simp: meshmind_create_detector_def split: sum.splits py_result.splits)

lemma convert_detection_Raise:
  "convert_detection det = Raise w \<longleftrightarrow>
     py_feature_id det = Raise w
     \<or> (\<exists>fid. py_feature_id det = Return fid)
        \<and> (py_transform det = Raise w
            \<or> (\<exists>f. py_transform det = Return f) \<and> py_confidence det = Raise w)"
  by (auto simp: convert_detection_def Let_def split: py_result.splits)

lemma caught_Load_target:
  "caught E d (Load_target (Some path)) =
     (case py_load_target E (mesher d) path of
        (m, Raise w) \<Rightarrow> Some w
      | (m, Return u) \<Rightarrow> None)"
  by (simp add: caught_def raised_def load_target_try_def split: prod.splits py_result.splits)

lemma caught_Detect:
  "0 < n \<Longrightarrow>
   caught E d (Detect (Some buf) n) =
     (case py_detections E (mesher d) of
        Raise w \<Rightarrow> Some w
      | Return dets \<Rightarrow>
          snd (snd (detect_loop dets
            (min (sint (word_of_nat (length dets) :: 32 word)) n) 0 buf [])))"
  by (auto simp: caught_def raised_def detect_try_def Let_def
      split: prod.splits py_result.splits option.splits)

lemma caught_Export_snappy_dict:
  "caught E d (Export_snappy_dict (Some path)) =
     (case py_generate_refinement E (mesher d) None of
        (m, Raise w) \<Rightarrow> Some w
      | (m, Return u) \<Rightarrow>
          (case py_export_snappy_dict E m path None of
             (m', Raise w) \<Rightarrow> Some w
           | (m', Return u) \<Rightarrow> None))"
  by (simp add: caught_def raised_def export_snappy_dict_try_def
      split: prod.splits py_result.splits)

lemma caught_Export_openfoam_case:
  "caught E d (Export_openfoam_case (Some dir) enable_mrf) =
     (case py_generate_refinement E (mesher d) (Some (enable_mrf \<noteq> 0)) of
        (m, Raise w) \<Rightarrow> Some w
      | (m, Return u) \<Rightarrow>
          (case py_export_snappy_dict E m dir (Some enable_mrf) of
             (m', Raise w) \<Rightarrow> Some w
           | (m', Return u) \<Rightarrow> None))"
  by (simp add: caught_def raised_def export_openfoam_case_try_def
      split: prod.splits py_result.splits)

lemma caught_Export_ftetwild_sizing:
  "caught E d (Export_ftetwild_sizing (Some path)) =
     (case py_FTetWildGenerator E of
        Raise w \<Rightarrow> Some w
      | Return g \<Rightarrow>
          (case py_detections E (mesher d) of
             Raise w \<Rightarrow> Some w
           | Return dets \<Rightarrow>
               (case py_generate_refinement_config E g dets ftetwild_params of
                  Raise w \<Rightarrow> Some w
                | Return config \<Rightarrow>
                    (case py_export_config E g config path of
                       Raise w \<Rightarrow> Some w
                     | Return u \<Rightarrow> None))))"
  by (simp add: caught_def raised_def export_ftetwild_sizing_try_def
      split: prod.splits py_result.splits)

subsection \<open>Runs of the test engine\<close>

lemma demo_run:
  "api_calls demo_engine (meshmind_create_detector demo_engine)
     [Load_target (Some ''missing.stl''), Load_target (Some ''model.stl'')]
   = ([MESHMIND_ERROR_LOAD, MESHMIND_SUCCESS],
      Some \<lparr>guard = Interpreter, mesher = ''model.stl'',
            last_error = ''FileNotFoundError: missing.stl'', cached_detections = []\<rparr>)"
  by (simp add: api_defs load_target_try_def meshmind_create_detector_def demo_engine_def)

lemma demo_create:
  "meshmind_create_detector demo_engine = Some (demo_detector [])"
  by (simp add: meshmind_create_detector_def demo_engine_def demo_detector_def)

lemma demo_caught_missing:
  "caught demo_engine (demo_detector []) (Load_target (Some ''missing.stl''))
     = Some ''FileNotFoundError: missing.stl''"
  by (simp add: caught_def raised_def load_target_try_def demo_engine_def demo_detector_def)

section \<open>The version string\<close>

text \<open>
  C8. \<open>meshmind_version\<close> takes no argument and no state and returns no state: it is the
  constant string \<open>MESHMIND_VERSION_STRING\<close>, the literal "1.0.0", on every call.
\<close>

theorem meshmind_version_literal:
  "meshmind_version = ''1.0.0'' \<and> meshmind_version = MESHMIND_VERSION_STRING"
  by (simp add: meshmind_version_def MESHMIND_VERSION_STRING_def)

section \<open>Template registration\<close>

text \<open>
  C4. On a valid handle and a non-null template path, \<open>meshmind_add_template\<close> returns
  the success code 0 whatever the path and the feature identifier are, calls nothing in the
  engine (the function does not take it) and leaves the detector exactly as it was; a
  detection made after it is therefore the detection made without it.
\<close>

theorem add_template_registers_nothing:
  "meshmind_add_template (Some d) (Some template_path) feature_ident = (0, Some d)
   \<and> meshmind_detect E
        (snd (meshmind_add_template (Some d) (Some template_path) feature_ident))
        results max_results
      = meshmind_detect E (Some d) results max_results"
  by (simp add: meshmind_add_template_def MESHMIND_SUCCESS_def)

text \<open>
  C10. With a valid handle and a non-null template path, a null \<open>feature_id\<close> is accepted:
  the call returns \<open>MESHMIND_SUCCESS\<close> (0), not \<open>MESHMIND_ERROR_INVALID_PARAM\<close>, and gives
  the same result as with any identifier.
\<close>

theorem add_template_null_feature_id:
  "meshmind_add_template (Some d) (Some template_path) None = (MESHMIND_SUCCESS, Some d)
   \<and> fst (meshmind_add_template (Some d) (Some template_path) None) = 0
   \<and> fst (meshmind_add_template (Some d) (Some template_path) None)
       \<noteq> MESHMIND_ERROR_INVALID_PARAM
   \<and> meshmind_add_template (Some d) (Some template_path) None
       = meshmind_add_template (Some d) (Some template_path) (Some ident)"
  by (simp add: meshmind_add_template_def error_codes)

section \<open>Null handles\<close>

text \<open>
  C2. With a null handle, whatever the engine and the other arguments are, every
  status-returning entry point returns \<open>MESHMIND_ERROR_INVALID_PARAM\<close> (-5) with the
  handle and the buffer untouched, \<open>meshmind_destroy_detector\<close> deletes nothing, and
  \<open>meshmind_get_error\<close> returns the fixed string "Invalid detector handle".
\<close>

theorem null_handle_is_rejected:
  "meshmind_load_target E None stl_path = (MESHMIND_ERROR_INVALID_PARAM, None)
   \<and> meshmind_add_template None template_path feature_ident
       = (MESHMIND_ERROR_INVALID_PARAM, None)
   \<and> meshmind_detect E None results max_results
       = (MESHMIND_ERROR_INVALID_PARAM, None, results)
   \<and> meshmind_export_snappy_dict E None output_path = (MESHMIND_ERROR_INVALID_PARAM, None)
   \<and> meshmind_export_openfoam_case E None case_dir enable_mrf
       = (MESHMIND_ERROR_INVALID_PARAM, None)
   \<and> meshmind_export_ftetwild_sizing E None output_path
       = (MESHMIND_ERROR_INVALID_PARAM, None)
   \<and> MESHMIND_ERROR_INVALID_PARAM = -5
   \<and> meshmind_destroy_detector None = []
   \<and> meshmind_get_error None = ''Invalid detector handle''"
  by (simp add: meshmind_load_target_def meshmind_add_template_def meshmind_detect_def
      meshmind_export_snappy_dict_def meshmind_export_openfoam_case_def
      meshmind_export_ftetwild_sizing_def meshmind_destroy_detector_def
      meshmind_get_error_def MESHMIND_ERROR_INVALID_PARAM_def)

section \<open>Detection\<close>

text \<open>
  C1, as the code has it. Let the engine's list be read without an exception and hold
  \<open>m < 2^31\<close> records, of which the first \<open>min c m\<close> convert without an exception. For
  a capacity \<open>c \<ge> 1\<close>, \<open>meshmind_detect\<close> on a valid handle and a non-null buffer returns
  \<open>min c m\<close>, which is at most \<open>c\<close> (a smaller capacity truncates, it is no error), writes
  exactly the records \<open>0 .. min c m - 1\<close> of the buffer, each the conversion of the list
  element of the same index, and leaves the rest of the buffer as it was (so nothing is
  written and 0 is returned when \<open>m = 0\<close>). A capacity \<open>c \<le> 0\<close> is rejected by the
  parameter check: the call returns \<open>MESHMIND_ERROR_INVALID_PARAM\<close> and changes nothing.
\<close>

theorem detect_writes_min_of_capacity_and_matches:
  assumes "py_detections E (mesher d) = Return dets"
    and "length dets < 2 ^ 31"
    and "\<forall>i<min (nat c) (length dets). \<exists>r. convert_detection (dets ! i) = Return r"
  shows "if 0 < c
     then \<exists>buf'.
        meshmind_detect E (Some d) (Some buf) c =
          (int (min (nat c) (length dets)),
           Some (d\<lparr>cached_detections := map buf' [0..<min (nat c) (length dets)]\<rparr>),
           Some buf')
        \<and> (\<forall>i<min (nat c) (length dets). convert_detection (dets ! i) = Return (buf' i))
        \<and> (\<forall>i\<ge>min (nat c) (length dets). buf' i = buf i)
        \<and> int (min (nat c) (length dets)) \<le> c
     else meshmind_detect E (Some d) (Some buf) c
            = (MESHMIND_ERROR_INVALID_PARAM, Some d, Some buf)"
proof (cases "0 < c")
  case True
  then have le: "int (min (nat c) (length dets)) \<le> c" by simp
  from meshmind_detect_all_converted [OF assms True, of buf] obtain buf' where
    "meshmind_detect E (Some d) (Some buf) c =
       (int (min (nat c) (length dets)),
        Some (d\<lparr>cached_detections := map buf' [0..<min (nat c) (length dets)]\<rparr>), Some buf')
     \<and> (\<forall>i<min (nat c) (length dets). convert_detection (dets ! i) = Return (buf' i))
     \<and> (\<forall>i\<ge>min (nat c) (length dets). buf' i = buf i)"
    by (rule exE)
  with le have "\<exists>buf'.
        meshmind_detect E (Some d) (Some buf) c =
          (int (min (nat c) (length dets)),
           Some (d\<lparr>cached_detections := map buf' [0..<min (nat c) (length dets)]\<rparr>),
           Some buf')
        \<and> (\<forall>i<min (nat c) (length dets). convert_detection (dets ! i) = Return (buf' i))
        \<and> (\<forall>i\<ge>min (nat c) (length dets). buf' i = buf i)
        \<and> int (min (nat c) (length dets)) \<le> c"
    by (intro exI [of _ buf']) (simp del: min_less_iff_conj)
  with True show ?thesis by (simp only: if_True)
next
  case False
  then show ?thesis by (simp add: meshmind_detect_nonpositive)
qed

theorem detect_writes_min_of_capacity_and_matches_witness:
  "fst (meshmind_detect demo_engine (Some (demo_detector ''model.stl'')) (Some demo_buffer) 2) = 2
   \<and> fst (meshmind_detect demo_engine (Some (demo_detector ''model.stl'')) (Some demo_buffer) 5) = 3
   \<and> fst (meshmind_detect demo_engine (Some (demo_detector ''model.stl'')) (Some demo_buffer) (- 1))
       = MESHMIND_ERROR_INVALID_PARAM
   \<and> meshmind_detect demo_engine (Some (demo_detector [])) (Some demo_buffer) 5
       = (0, Some (demo_detector []), Some demo_buffer)"
proof -
  let ?dets = "[demo_wheel, demo_mirror, demo_wheel]"
  have ok: "\<forall>i<min (nat c) (length ?dets). \<exists>r. convert_detection (?dets ! i) = Return r" for c
    by (auto simp: less_Suc_eq nth_Cons' convert_demo)
  have len: "length ?dets < 2 ^ 31" by simp
  note t = detect_writes_min_of_capacity_and_matches [OF demo_detections(1) len ok, of _ demo_buffer]
  have none: "py_detections demo_engine (mesher (demo_detector [])) = Return []"
    by (simp add: demo_engine_def demo_detector_def)
  from detect_writes_min_of_capacity_and_matches [OF none, of 5 demo_buffer]
  obtain buf' where
    r: "meshmind_detect demo_engine (Some (demo_detector [])) (Some demo_buffer) 5
       = (0, Some ((demo_detector [])\<lparr>cached_detections := []\<rparr>), Some buf')" and
    u: "\<forall>i. buf' i = demo_buffer i"
    by auto
  from u have "buf' = demo_buffer" by (intro ext) simp
  with r have "meshmind_detect demo_engine (Some (demo_detector [])) (Some demo_buffer) 5
       = (0, Some (demo_detector []), Some demo_buffer)"
    by (simp add: demo_detector_def)
  with t [of 2] t [of 5] t [of "- 1"] show ?thesis
    by auto
qed

text \<open>
  C1 as stated fails at capacity 0: with three matches in the engine the call returns
  the error code -5, not \<open>min 0 3 = 0\<close>.
\<close>

theorem detect_capacity_zero_counterexample:
  "py_detections demo_engine (mesher (demo_detector ''model.stl''))
     = Return [demo_wheel, demo_mirror, demo_wheel]
   \<and> fst (meshmind_detect demo_engine (Some (demo_detector ''model.stl'')) (Some demo_buffer) 0)
       = - 5
   \<and> fst (meshmind_detect demo_engine (Some (demo_detector ''model.stl'')) (Some demo_buffer) 0)
       \<noteq> int (min 0 (length [demo_wheel, demo_mirror, demo_wheel]))"
  by (simp add: demo_detections meshmind_detect_nonpositive error_codes)

text \<open>
  C9. Whenever \<open>meshmind_detect\<close> returns a count \<open>n \<ge> 0\<close>, the handle is valid, the
  buffer is non-null and the cache of the detector after the call is the list of the
  records \<open>0 .. n - 1\<close> of the buffer after the call, in that order; the cache the detector
  had before the call plays no part in the outcome.
\<close>

theorem detect_cache_mirrors_buffer:
  assumes "meshmind_detect E detector results max_results = (n, detector', results')"
    and "0 \<le> n"
  shows "\<exists>d' buf'. detector' = Some d' \<and> results' = Some buf'
           \<and> length (cached_detections d') = nat n
           \<and> cached_detections d' = map buf' [0..<nat n]
           \<and> (\<forall>old. meshmind_detect E
                  (map_option (\<lambda>d. d\<lparr>cached_detections := old\<rparr>) detector)
                  results max_results = (n, detector', results'))"
proof -
  from assms obtain d buf dets buf' cached' where
    v: "detector = Some d" "results = Some buf" "0 < max_results"
       "py_detections E (mesher d) = Return dets" and
    l: "detect_loop dets n 0 buf [] = (buf', cached', None)" and
    r: "detector' = Some (d\<lparr>cached_detections := cached'\<rparr>)" "results' = Some buf'"
    by (rule meshmind_detect_nonneg)
  from detect_loop_from_start(3) [OF l] assms(2) have len: "length cached' = nat n"
    by simp
  from detect_loop_from_start(1) [OF l] have "\<forall>j<length cached'. cached' ! j = buf' j"
    by simp
  with len have "cached' = map buf' [0..<nat n]"
    by (intro nth_equalityI) simp_all
  moreover from v assms(1) have "\<forall>old. meshmind_detect E
      (map_option (\<lambda>d. d\<lparr>cached_detections := old\<rparr>) detector)
      results max_results = (n, detector', results')"
    by (simp add: meshmind_detect_ignores_cache)
  ultimately show ?thesis using r len by simp
qed

theorem detect_cache_mirrors_buffer_witness:
  "\<exists>d' buf'.
     meshmind_detect demo_engine
       (Some ((demo_detector ''model.stl'')\<lparr>cached_detections := [zero_detection]\<rparr>))
       (Some demo_buffer) 2 = (2, Some d', Some buf')
     \<and> length (cached_detections d') = 2
     \<and> cached_detections d' = [buf' 0, buf' 1]
     \<and> meshmind_detect demo_engine
          (Some ((demo_detector ''model.stl'')\<lparr>cached_detections := []\<rparr>))
          (Some demo_buffer) 2 = (2, Some d', Some buf')"
proof -
  let ?d = "(demo_detector ''model.stl'')\<lparr>cached_detections := [zero_detection]\<rparr>"
  let ?dets = "[demo_wheel, demo_mirror, demo_wheel]"
  have dets: "py_detections demo_engine (mesher ?d) = Return ?dets"
    by (simp add: demo_engine_def demo_detector_def)
  have ok: "\<forall>i<min (nat 2) (length ?dets). \<exists>r. convert_detection (?dets ! i) = Return r"
    by (auto simp: less_Suc_eq nth_Cons' convert_demo)
  have len: "length ?dets < 2 ^ 31" by simp
  from meshmind_detect_all_converted [OF dets len ok, of demo_buffer]
  obtain d' buf' where
    r: "meshmind_detect demo_engine (Some ?d) (Some demo_buffer) 2 = (2, Some d', Some buf')"
    by auto
  from detect_cache_mirrors_buffer [OF r] r show ?thesis
    by (simp add: numeral_2_eq_2)
qed

text \<open>
  C6. Every record that a detection writes is well formed. The records written by a call
  with a positive capacity and a readable list are those at the indices below the length
  of the cache after the call (the cache is cleared, then every written record is pushed;
  when the status is a count, that length is the count). Such a record has a 256-byte
  identifier whose last byte is NUL, so that the string read from it has at most 255
  characters; its three position entries are the entries 3, 7 and 11 of its sixteen
  transform entries, the translation column of the row-major matrix; and its radius is 0
  when the list element has no metadata dictionary or the dictionary has no radius.
\<close>

theorem detection_records_well_formed:
  assumes "0 < c" and "py_detections E (mesher d) = Return dets"
    and "meshmind_detect E (Some d) (Some buf) c = (status, Some d', Some buf')"
    and "i < length (cached_detections d')"
  shows "buf' i = cached_detections d' ! i
     \<and> position (buf' i) ! 0 = transform (buf' i) ! (4 * 0 + 3)
     \<and> position (buf' i) ! 1 = transform (buf' i) ! (4 * 1 + 3)
     \<and> position (buf' i) ! 2 = transform (buf' i) ! (4 * 2 + 3)
     \<and> length (position (buf' i)) = 3 \<and> length (transform (buf' i)) = 16
     \<and> length (feature_id (buf' i)) = 256 \<and> feature_id (buf' i) ! 255 = NUL
     \<and> length (takeWhile (\<lambda>ch. ch \<noteq> NUL) (feature_id (buf' i))) \<le> 255
     \<and> ((case py_region_metadata (dets ! i) of
            Raise w \<Rightarrow> True
          | Return metadata \<Rightarrow> metadata ''radius'' = None) \<longrightarrow> radius (buf' i) = 0)
     \<and> (0 \<le> status \<longrightarrow> length (cached_detections d') = nat status)"
proof -
  let ?count = "min (sint (word_of_nat (length dets) :: 32 word)) c"
  obtain b cached' exc where
    l: "detect_loop dets ?count 0 buf [] = (b, cached', exc)"
    by (metis prod_cases3)
  from meshmind_detect_loop [OF assms(1,2) l] assms(3)
  have r: "buf' = b" "cached_detections d' = cached'"
    and s: "status = (case exc of None \<Rightarrow> ?count | Some w \<Rightarrow> MESHMIND_ERROR_DETECT)"
    by (cases exc; auto)+
  from detect_loop_from_start(1) [OF l] assms(4) r
  have w: "buf' i = cached_detections d' ! i" and
    conv: "convert_detection (dets ! i) = Return (buf' i)"
    by simp_all
  note wf = convert_detection_Return [OF conv]
  from wf(1,2) have "length (takeWhile (\<lambda>ch. ch \<noteq> NUL) (feature_id (buf' i))) \<le> 255"
    by (intro length_takeWhile_le_nth) simp_all
  moreover have "0 \<le> status \<longrightarrow> length (cached_detections d') = nat status"
  proof
    assume "0 \<le> status"
    with s have "exc = None" by (cases exc) (simp_all add: error_codes)
    with detect_loop_from_start(3) [OF l] s r \<open>0 \<le> status\<close> show "length (cached_detections d') = nat status"
      by simp
  qed
  ultimately show ?thesis using w wf by simp
qed

theorem detection_records_well_formed_witness:
  "\<exists>d' buf'.
     meshmind_detect demo_engine (Some (demo_detector ''model.stl'')) (Some demo_buffer) 2
       = (2, Some d', Some buf')
     \<and> position (buf' 1) ! 0 = transform (buf' 1) ! 3
     \<and> position (buf' 1) ! 1 = transform (buf' 1) ! 7
     \<and> position (buf' 1) ! 2 = transform (buf' 1) ! 11
     \<and> length (feature_id (buf' 1)) = 256 \<and> feature_id (buf' 1) ! 255 = NUL
     \<and> py_region_metadata demo_mirror = Raise ''AttributeError: region_metadata''
     \<and> radius (buf' 1) = 0"
proof -
  let ?d = "demo_detector ''model.stl''"
  let ?dets = "[demo_wheel, demo_mirror, demo_wheel]"
  have ok: "\<forall>i<min (nat 2) (length ?dets). \<exists>r. convert_detection (?dets ! i) = Return r"
    by (auto simp: less_Suc_eq nth_Cons' convert_demo)
  have len: "length ?dets < 2 ^ 31" by simp
  from meshmind_detect_all_converted [OF demo_detections(1) len ok, of demo_buffer]
  obtain d' buf' where
    r: "meshmind_detect demo_engine (Some ?d) (Some demo_buffer) 2 = (2, Some d', Some buf')"
    and c: "length (cached_detections d') = 2"
    by auto
  have m: "py_region_metadata demo_mirror = Raise ''AttributeError: region_metadata''"
    by (simp add: demo_mirror_def)
  from c have i: "1 < length (cached_detections d')" by simp
  have p: "(0::int) < 2" by simp
  note t = detection_records_well_formed [OF p demo_detections(1) r i, THEN conjunct2]
  from t m r show ?thesis
    by simp
qed

section \<open>The last-error string\<close>

text \<open>
  C5, as the code has it. When an exception raised by the engine leaves the try block of
  \<open>meshmind_load_target\<close>, \<open>meshmind_detect\<close> or an export call made on a valid handle, the
  call returns the code of its handler (load -2, detect -3, export -4; the other codes of
  the header are init failure -1 and invalid parameter -5) and stores the exception's text
  as the last error, which \<open>meshmind_get_error\<close> then returns, non-empty when the text is.
  In particular, if the engine raises in \<open>load_target(path)\<close>, the call returns -2 with that
  text stored. The lemmas \<open>caught_Load_target\<close> to \<open>caught_Export_ftetwild_sizing\<close> and
  \<open>convert_detection_Raise\<close> say which Python calls can raise out of each try block:
  all of them, except the reads of a record's metadata and radius in a detection.
\<close>

theorem engine_exception_sets_code_and_last_error:
  assumes "caught E d c = Some w"
  shows "(\<exists>code d'. api_call E (Some d) c = (code, Some d') \<and> handler_code c = Some code
            \<and> code \<in> {MESHMIND_ERROR_LOAD, MESHMIND_ERROR_DETECT, MESHMIND_ERROR_EXPORT}
            \<and> code < 0
            \<and> meshmind_get_error (Some d') = w
            \<and> (w \<noteq> [] \<longrightarrow> meshmind_get_error (Some d') \<noteq> []))
     \<and> (\<forall>path m w'. py_load_target E (mesher d) path = (m, Raise w')
            \<longrightarrow> meshmind_load_target E (Some d) (Some path)
                  = (- 2, Some (d\<lparr>mesher := m, last_error := w'\<rparr>)))
     \<and> MESHMIND_ERROR_INIT = - 1 \<and> MESHMIND_ERROR_LOAD = - 2
     \<and> MESHMIND_ERROR_DETECT = - 3 \<and> MESHMIND_ERROR_EXPORT = - 4
     \<and> MESHMIND_ERROR_INVALID_PARAM = - 5"
proof -
  from api_call_caught_Some [OF assms] obtain code d' where
    r: "handler_code c = Some code" "api_call E (Some d) c = (code, Some d')"
       "last_error d' = w"
    by blast
  from handler_code_values [OF r(1)]
  have v: "code \<in> {MESHMIND_ERROR_LOAD, MESHMIND_ERROR_DETECT, MESHMIND_ERROR_EXPORT}" .
  then have "code < 0" by (auto simp: error_codes)
  with r v have "\<exists>code d'. api_call E (Some d) c = (code, Some d') \<and> handler_code c = Some code
            \<and> code \<in> {MESHMIND_ERROR_LOAD, MESHMIND_ERROR_DETECT, MESHMIND_ERROR_EXPORT}
            \<and> code < 0
            \<and> meshmind_get_error (Some d') = w
            \<and> (w \<noteq> [] \<longrightarrow> meshmind_get_error (Some d') \<noteq> [])"
    by (simp add: meshmind_get_error_def)
  moreover have "\<forall>path m w'. py_load_target E (mesher d) path = (m, Raise w')
            \<longrightarrow> meshmind_load_target E (Some d) (Some path)
                  = (- 2, Some (d\<lparr>mesher := m, last_error := w'\<rparr>))"
    by (simp add: meshmind_load_target_def load_target_try_def error_codes)
  ultimately show ?thesis by (simp add: error_codes)
qed

theorem engine_exception_sets_code_and_last_error_witness:
  "meshmind_load_target demo_engine (Some (demo_detector [])) (Some ''missing.stl'')
     = (- 2, Some ((demo_detector [])\<lparr>mesher := [],
                     last_error := ''FileNotFoundError: missing.stl''\<rparr>))
   \<and> meshmind_get_error
        (snd (meshmind_load_target demo_engine (Some (demo_detector [])) (Some ''missing.stl'')))
       = ''FileNotFoundError: missing.stl''"
proof -
  have p: "py_load_target demo_engine (mesher (demo_detector [])) ''missing.stl''
      = ([], Raise ''FileNotFoundError: missing.stl'')"
    by (simp add: demo_engine_def demo_detector_def)
  from engine_exception_sets_code_and_last_error [OF demo_caught_missing] p
  have "meshmind_load_target demo_engine (Some (demo_detector [])) (Some ''missing.stl'')
     = (- 2, Some ((demo_detector [])\<lparr>mesher := [],
                     last_error := ''FileNotFoundError: missing.stl''\<rparr>))"
    by blast
  then show ?thesis by (simp add: meshmind_get_error_def)
qed

text \<open>
  C5 as stated fails for an exception raised while a detection reads a record's
  \<open>region_metadata\<close>: the inner handler swallows it, the call returns the count 2 and the
  last error stays empty.
\<close>

theorem swallowed_metadata_exception_counterexample:
  "py_detections demo_engine (mesher (demo_detector ''model.stl''))
     = Return [demo_wheel, demo_mirror, demo_wheel]
   \<and> py_region_metadata ([demo_wheel, demo_mirror, demo_wheel] ! 1)
       = Raise ''AttributeError: region_metadata''
   \<and> fst (meshmind_detect demo_engine (Some (demo_detector ''model.stl''))
          (Some demo_buffer) 2) = 2
   \<and> meshmind_get_error
        (fst (snd (meshmind_detect demo_engine (Some (demo_detector ''model.stl''))
           (Some demo_buffer) 2))) = []"
proof -
  let ?dets = "[demo_wheel, demo_mirror, demo_wheel]"
  have ok: "\<forall>i<min (nat 2) (length ?dets). \<exists>r. convert_detection (?dets ! i) = Return r"
    by (auto simp: less_Suc_eq nth_Cons' convert_demo)
  have len: "length ?dets < 2 ^ 31" by simp
  from meshmind_detect_all_converted [OF demo_detections(1) len ok, of demo_buffer]
  obtain d' buf' where
    r: "meshmind_detect demo_engine (Some (demo_detector ''model.stl'')) (Some demo_buffer) 2
       = (2, Some d', Some buf')" and
    e: "last_error d' = last_error (demo_detector ''model.stl'')"
    by auto
  have m: "py_region_metadata (?dets ! 1) = Raise ''AttributeError: region_metadata''"
    by (simp add: demo_mirror_def)
  from e have "meshmind_get_error (Some d') = []"
    by (simp add: meshmind_get_error_def demo_detector_def)
  with r m demo_detections(1) show ?thesis
    by (simp only: fst_conv snd_conv simp_thms)
qed

text \<open>
  C3, as the code has it. No call clears the last-error string. After a call \<open>c\<close> on a
  valid handle, followed by any number of calls none of which returns a load, detect or
  export error, \<open>meshmind_get_error\<close> returns the text caught by the handler of \<open>c\<close>, or,
  when \<open>c\<close> caught nothing, what it returned before \<open>c\<close>; this is the empty string when the
  handle had just been created.
\<close>

theorem get_error_keeps_last_engine_failure:
  assumes "api_calls E (Some d) (c # cs) = (status # statuses, detector')"
    and "\<forall>s\<in>set statuses.
           s \<notin> {MESHMIND_ERROR_LOAD, MESHMIND_ERROR_DETECT, MESHMIND_ERROR_EXPORT}"
  shows "meshmind_get_error detector'
           = (case caught E d c of Some w \<Rightarrow> w | None \<Rightarrow> meshmind_get_error (Some d))
     \<and> (meshmind_create_detector E = Some d \<longrightarrow> caught E d c = None
          \<longrightarrow> meshmind_get_error detector' = [])"
proof -
  from api_call_last_error [of E d c] obtain s1 d1 where
    c: "api_call E (Some d) c = (s1, Some d1)" and
    e: "last_error d1 = (case caught E d c of Some w \<Rightarrow> w | None \<Rightarrow> last_error d)"
    by blast
  from assms(1) c have "api_calls E (Some d1) cs = (statuses, detector')"
    by (auto split: prod.splits)
  from api_calls_keep_last_error [OF this assms(2)] e
  have g: "meshmind_get_error detector'
           = (case caught E d c of Some w \<Rightarrow> w | None \<Rightarrow> meshmind_get_error (Some d))"
    by (cases "caught E d c") (auto simp: meshmind_get_error_def)
  moreover have "meshmind_get_error (Some d) = []" if "meshmind_create_detector E = Some d"
    using that by (simp add: meshmind_get_error_def create_detector_Some)
  ultimately show ?thesis by simp
qed

theorem get_error_keeps_last_engine_failure_witness:
  "meshmind_get_error
     (snd (api_calls demo_engine (Some (demo_detector []))
        [Load_target (Some ''missing.stl''), Load_target (Some ''model.stl''),
         Add_template (Some ''wheel.stl'') (Some ''wheel'')]))
   = ''FileNotFoundError: missing.stl''"
proof -
  let ?cs = "[Load_target (Some ''model.stl''), Add_template (Some ''wheel.stl'') (Some ''wheel'')]"
  have r: "api_calls demo_engine (Some (demo_detector []))
      (Load_target (Some ''missing.stl'') # ?cs)
    = (- 2 # [0, 0],
       Some \<lparr>guard = Interpreter, mesher = ''model.stl'',
            last_error = ''FileNotFoundError: missing.stl'', cached_detections = []\<rparr>)"
    by (simp add: api_defs load_target_try_def demo_engine_def demo_detector_def error_codes)
  have ok: "\<forall>s\<in>set [0, 0].
      s \<notin> {MESHMIND_ERROR_LOAD, MESHMIND_ERROR_DETECT, MESHMIND_ERROR_EXPORT}"
    by (simp add: error_codes)
  have w: "caught demo_engine (demo_detector []) (Load_target (Some ''missing.stl''))
      = Some ''FileNotFoundError: missing.stl''"
    by (simp add: caught_def raised_def load_target_try_def demo_engine_def demo_detector_def)
  from get_error_keeps_last_engine_failure [OF r ok, THEN conjunct1] w show ?thesis
    by (simp only: r snd_conv option.case)
qed

text \<open>
  C3 as stated fails: after a failed \<open>load_target\<close>, a successful one leaves the text of
  the failure in place, so \<open>meshmind_get_error\<close> is not empty after a success.
\<close>

theorem get_error_after_success_counterexample:
  "api_calls demo_engine (meshmind_create_detector demo_engine)
     [Load_target (Some ''missing.stl''), Load_target (Some ''model.stl'')]
   = ([MESHMIND_ERROR_LOAD, MESHMIND_SUCCESS],
      Some \<lparr>guard = Interpreter, mesher = ''model.stl'',
            last_error = ''FileNotFoundError: missing.stl'', cached_detections = []\<rparr>)
   \<and> meshmind_get_error
        (snd (api_calls demo_engine (meshmind_create_detector demo_engine)
           [Load_target (Some ''missing.stl''), Load_target (Some ''model.stl'')]))
      = ''FileNotFoundError: missing.stl''
   \<and> meshmind_get_error
        (snd (api_calls demo_engine (meshmind_create_detector demo_engine)
           [Load_target (Some ''missing.stl''), Load_target (Some ''model.stl'')]))
      \<noteq> []"
  unfolding demo_run by (simp add: meshmind_get_error_def)

text \<open>
  C7, as the code has it. A detector has one last-error string, the one
  \<open>meshmind_get_error\<close> returns. It is empty in a detector that has just been created. A
  call on a valid handle sets it to the text its handler catches and otherwise leaves it
  as it was; in particular a call rejected by its parameter check, which fails with
  \<open>MESHMIND_ERROR_INVALID_PARAM\<close>, leaves the whole detector unchanged.
\<close>

theorem last_error_lifecycle:
  "(meshmind_create_detector E = Some d0
      \<longrightarrow> last_error d0 = [] \<and> meshmind_get_error (Some d0) = [])
   \<and> meshmind_get_error (Some d) = last_error d
   \<and> (\<exists>status d'. api_call E (Some d) c = (status, Some d')
         \<and> last_error d' = (case caught E d c of Some w \<Rightarrow> w | None \<Rightarrow> last_error d)
         \<and> (caught E d c \<noteq> None \<longrightarrow> handler_code c = Some status))
   \<and> meshmind_load_target E (Some d) None = (MESHMIND_ERROR_INVALID_PARAM, Some d)
   \<and> meshmind_add_template (Some d) None ident = (MESHMIND_ERROR_INVALID_PARAM, Some d)
   \<and> meshmind_detect E (Some d) None n = (MESHMIND_ERROR_INVALID_PARAM, Some d, None)
   \<and> (n \<le> 0 \<longrightarrow> meshmind_detect E (Some d) results n
                    = (MESHMIND_ERROR_INVALID_PARAM, Some d, results))
   \<and> meshmind_export_snappy_dict E (Some d) None = (MESHMIND_ERROR_INVALID_PARAM, Some d)
   \<and> meshmind_export_openfoam_case E (Some d) None mrf
       = (MESHMIND_ERROR_INVALID_PARAM, Some d)
   \<and> meshmind_export_ftetwild_sizing E (Some d) None = (MESHMIND_ERROR_INVALID_PARAM, Some d)"
proof -
  have "meshmind_create_detector E = Some d0
      \<longrightarrow> last_error d0 = [] \<and> meshmind_get_error (Some d0) = []"
    by (auto simp: meshmind_get_error_def dest: create_detector_Some)
  moreover have "n \<le> 0 \<longrightarrow> meshmind_detect E (Some d) results n
                    = (MESHMIND_ERROR_INVALID_PARAM, Some d, results)"
    by (cases results) (simp_all add: meshmind_detect_def)
  moreover note api_call_last_error [of E d c]
  ultimately show ?thesis
    by (simp add: meshmind_get_error_def meshmind_load_target_def meshmind_add_template_def
        meshmind_detect_def meshmind_export_snappy_dict_def
        meshmind_export_openfoam_case_def meshmind_export_ftetwild_sizing_def)
qed

theorem last_error_lifecycle_witness:
  "meshmind_create_detector demo_engine = Some (demo_detector [])
   \<and> meshmind_get_error (meshmind_create_detector demo_engine) = []
   \<and> (\<exists>d'. api_call demo_engine (Some (demo_detector [])) (Load_target (Some ''missing.stl''))
              = (MESHMIND_ERROR_LOAD, Some d')
         \<and> last_error d' = ''FileNotFoundError: missing.stl'')
   \<and> meshmind_detect demo_engine (Some (demo_detector [])) (Some demo_buffer) 0
       = (MESHMIND_ERROR_INVALID_PARAM, Some (demo_detector []), Some demo_buffer)"
proof -
  note t = last_error_lifecycle [of demo_engine "demo_detector []" "demo_detector []"
      "Load_target (Some ''missing.stl'')" None 0 "Some demo_buffer" 0]
  from t demo_create demo_caught_missing show ?thesis
    by (auto simp: handler_code_def)
qed

text \<open>
  C7 as stated fails for calls that fail in their parameter check: \<open>load_target\<close> with a
  null path on a fresh handle returns -5 and the string stays empty, and a detection with
  capacity 0 after a failed load returns -5 and the string is still that of the load.
\<close>

theorem failing_call_keeps_last_error_counterexample:
  "api_calls demo_engine (meshmind_create_detector demo_engine) [Load_target None]
     = ([MESHMIND_ERROR_INVALID_PARAM],
        Some \<lparr>guard = Interpreter, mesher = [], last_error = [], cached_detections = []\<rparr>)
   \<and> api_calls demo_engine (meshmind_create_detector demo_engine)
       [Load_target (Some ''missing.stl''), Detect (Some demo_buffer) 0]
     = ([MESHMIND_ERROR_LOAD, MESHMIND_ERROR_INVALID_PARAM],
        Some \<lparr>guard = Interpreter, mesher = [],
              last_error = ''FileNotFoundError: missing.stl'', cached_detections = []\<rparr>)
   \<and> MESHMIND_ERROR_INVALID_PARAM < 0"
  by (simp add: api_defs load_target_try_def meshmind_create_detector_def demo_engine_def
      MESHMIND_ERROR_INVALID_PARAM_def)

end
